theory Spec2Isabelle
  imports Complex_Main
begin

section \<open>Values\<close>

text \<open>
  Every number handled by \<^verbatim>\<open>ProjetoEE.py\<close> is a double: a cell of the data editor, the
  result of a numpy operation, or Python's \<^verbatim>\<open>float('inf')\<close>. A double is modelled as a
  real or one of the three special values. The special values follow IEEE 754 as numpy
  applies it: a division by zero is a warning and yields an infinity or NaN, never an
  exception, and every ordered comparison with NaN is false; the comparisons are exactly
  those of doubles. The arithmetic on finite values is the exact one: rounding to 53 bits,
  overflow, the sign of zero and the wrap-around of an int64 column are left out. The
  model is the script as it runs in exact arithmetic: on a given input its values are those
  of the script up to the rounding of doubles. General statements are made only where
  rounding plays no part: on the branches taken once the columns are computed, on the
  comparisons, and on the wiring of the values.
\<close>

datatype pyfloat = Fin real | PInf | NInf | NaN

fun fl_neg :: "pyfloat \<Rightarrow> pyfloat" where
  "fl_neg (Fin x) = Fin (- x)"
| "fl_neg PInf = NInf"
| "fl_neg NInf = PInf"
| "fl_neg NaN = NaN"

fun fl_add :: "pyfloat \<Rightarrow> pyfloat \<Rightarrow> pyfloat" where
  "fl_add NaN _ = NaN"
| "fl_add _ NaN = NaN"
| "fl_add (Fin x) (Fin y) = Fin (x + y)"
| "fl_add PInf NInf = NaN"
| "fl_add NInf PInf = NaN"
| "fl_add PInf _ = PInf"
| "fl_add _ PInf = PInf"
| "fl_add NInf _ = NInf"
| "fl_add _ NInf = NInf"

fun fl_div :: "pyfloat \<Rightarrow> pyfloat \<Rightarrow> pyfloat" where
  "fl_div NaN _ = NaN"
| "fl_div _ NaN = NaN"
| "fl_div (Fin x) (Fin y) =
     (if y \<noteq> 0 then Fin (x / y)
      else if 0 < x then PInf else if x < 0 then NInf else NaN)"
| "fl_div (Fin x) _ = Fin 0"
| "fl_div PInf (Fin y) = (if 0 \<le> y then PInf else NInf)"
| "fl_div NInf (Fin y) = (if 0 \<le> y then NInf else PInf)"
| "fl_div _ _ = NaN"

fun fl_lt :: "pyfloat \<Rightarrow> pyfloat \<Rightarrow> bool" where
  "fl_lt NaN _ = False"
| "fl_lt _ NaN = False"
| "fl_lt (Fin x) (Fin y) = (x < y)"
| "fl_lt _ NInf = False"
| "fl_lt NInf _ = True"
| "fl_lt PInf _ = False"
| "fl_lt _ PInf = True"

definition fl_gt :: "pyfloat \<Rightarrow> pyfloat \<Rightarrow> bool" where
  "fl_gt a b = fl_lt b a"

section \<open>Library functions the script calls\<close>

text \<open>
  \<^verbatim>\<open>numpy_financial.pv(rate, nper, pmt, fv)\<close> with the default \<^verbatim>\<open>when='end'\<close> (that is 0):
  \<^verbatim>\<open>
    temp = (1+rate)**nper
    fact = np.where(rate == 0, nper, (1+rate*when)*(temp-1)/rate)
    return -(fv + pmt*fact)/temp
  \<close>
  The rate and the flows are finite, so \<open>temp\<close> and \<open>fact\<close> are; the last division is the
  only one that can meet a zero (\<open>rate = -1\<close>).
\<close>

definition pv :: "real \<Rightarrow> nat \<Rightarrow> real \<Rightarrow> real \<Rightarrow> pyfloat" where
  "pv rate nper pmt fv =
     (let temp = (1 + rate) ^ nper;
          fact = (if rate = 0 then real nper else (1 + rate * 0) * (temp - 1) / rate)
      in fl_div (Fin (- (fv + pmt * fact))) (Fin temp))"

text \<open>
  \<^verbatim>\<open>np.cumsum\<close> of a pandas column is the column's own \<^verbatim>\<open>cumsum\<close>, which skips NaN: a NaN
  entry stays NaN in the result and adds nothing to the running total.
\<close>

fun cumsum_from :: "pyfloat \<Rightarrow> pyfloat list \<Rightarrow> pyfloat list" where
  "cumsum_from acc [] = []"
| "cumsum_from acc (x # xs) =
     (if x = NaN then NaN # cumsum_from acc xs
      else fl_add acc x # cumsum_from (fl_add acc x) xs)"

definition cumsum :: "pyfloat list \<Rightarrow> pyfloat list" where
  "cumsum xs = cumsum_from (Fin 0) xs"

text \<open>
  \<^verbatim>\<open>numpy_financial.npv(rate, values)\<close>:
  \<^verbatim>\<open>(values / (1+rate)**np.arange(0, len(values))).sum(axis=0)\<close>.
\<close>

definition npv :: "real \<Rightarrow> real list \<Rightarrow> pyfloat" where
  "npv rate values =
     foldl fl_add (Fin 0)
       (map (\<lambda>(t, v). fl_div (Fin v) (Fin ((1 + rate) ^ t))) (zip [0..<length values] values))"

text \<open>
  \<^verbatim>\<open>round(x, 2)\<close>: the nearest multiple of 0.01, a tie going to the even one; an infinity
  or NaN is returned as it is.
\<close>

definition rint :: "real \<Rightarrow> int" where
  "rint y =
     (let f = \<lfloor>y\<rfloor>; d = y - of_int f
      in if d < 1 / 2 then f else if 1 / 2 < d then f + 1 else if even f then f else f + 1)"

fun round2 :: "pyfloat \<Rightarrow> pyfloat" where
  "round2 (Fin x) = Fin (of_int (rint (x * 100)) / 100)"
| "round2 v = v"

section \<open>The script\<close>

subsection \<open>\<^verbatim>\<open>discounted_payback_period\<close>\<close>

text \<open>
  The column's index is the row number, so a column is a list and a year is a position in
  it. The three columns of \<^verbatim>\<open>cf_df\<close> are three lists of the same length. The flows
  are taken as the numbers they stand for: an int64 column is read as those numbers.
\<close>

definition DiscountedCashFlows :: "real \<Rightarrow> real list \<Rightarrow> pyfloat list" where
  "DiscountedCashFlows rate cash_flows =
     map (\<lambda>(nper, cf). pv rate nper 0 (- cf)) (zip [0..<length cash_flows] cash_flows)"

definition CumulativeDiscountedCashFlows :: "real \<Rightarrow> real list \<Rightarrow> pyfloat list" where
  "CumulativeDiscountedCashFlows rate cash_flows = cumsum (DiscountedCashFlows rate cash_flows)"

text \<open>
  Lines 79 to 97, on the two columns computed at lines 74 and 77: the rows with a negative
  cumulative value, the two returns of infinity, and the interpolation.
\<close>

definition payback_from_columns :: "pyfloat list \<Rightarrow> pyfloat list \<Rightarrow> pyfloat" where
  "payback_from_columns dcfs cums =
     (let negative_cash_flows =
            filter (\<lambda>year. fl_lt (cums ! year) (Fin 0)) [0..<length cums]
      in if negative_cash_flows = [] then PInf
         else
           let final_full_year = Max (set negative_cash_flows) in
           if final_full_year = Max (set [0..<length cums]) then PInf
           else
             let fractional_yr =
                   fl_div (fl_neg (cums ! final_full_year)) (dcfs ! (final_full_year + 1))
             in fl_add (Fin (real final_full_year)) fractional_yr)"

definition discounted_payback_period :: "real \<Rightarrow> real list \<Rightarrow> pyfloat" where
  "discounted_payback_period rate cash_flows =
     payback_from_columns (DiscountedCashFlows rate cash_flows)
       (CumulativeDiscountedCashFlows rate cash_flows)"

subsection \<open>\<^verbatim>\<open>compare_alternatives\<close>\<close>

text \<open>The returned table: three columns over the index \<^verbatim>\<open>['TIR', 'VPL', 'Payback']\<close>.\<close>

record comparison =
  Alternativa_A :: "pyfloat list"
  Alternativa_B :: "pyfloat list"
  Alternativa_Escolhida :: "string list"

definition compare_alternatives ::
  "pyfloat \<Rightarrow> pyfloat \<Rightarrow> pyfloat \<Rightarrow> pyfloat \<Rightarrow> pyfloat \<Rightarrow> pyfloat \<Rightarrow> comparison" where
  "compare_alternatives tir_a vpl_a payback_a tir_b vpl_b payback_b =
     \<lparr> Alternativa_A = [tir_a, vpl_a, payback_a],
       Alternativa_B = [tir_b, vpl_b, payback_b],
       Alternativa_Escolhida =
         [ if fl_gt tir_a tir_b then ''A'' else ''B'',
           if fl_gt vpl_a vpl_b then ''A'' else ''B'',
           if fl_lt payback_a payback_b then ''A'' else ''B'' ] \<rparr>"

text \<open>The rows of the table, by their label.\<close>

definition TIR :: nat where "TIR = 0"
definition VPL :: nat where "VPL = 1"
definition Payback :: nat where "Payback = 2"

subsection \<open>The values the script computes\<close>

text \<open>
  The two columns of the data editor and the rate cell. \<^verbatim>\<open>numpy_financial.irr\<close> is a
  root finder of the library; the script only passes its result on, so it is a parameter
  \<open>irr\<close> here (NaN when it finds no root).
\<close>

record df =
  A :: "real list"
  B :: "real list"

definition vpl_a :: "real \<Rightarrow> df \<Rightarrow> pyfloat" where
  "vpl_a tma d = round2 (npv tma (A d))"

definition payback_a :: "real \<Rightarrow> df \<Rightarrow> pyfloat" where
  "payback_a tma d = round2 (discounted_payback_period tma (A d))"

definition vpl_b :: "real \<Rightarrow> df \<Rightarrow> pyfloat" where
  "vpl_b tma d = round2 (npv tma (B d))"

definition payback_b :: "real \<Rightarrow> df \<Rightarrow> pyfloat" where
  "payback_b tma d = round2 (discounted_payback_period tma (B d))"

definition resultado_comparacao :: "(real list \<Rightarrow> pyfloat) \<Rightarrow> real \<Rightarrow> df \<Rightarrow> comparison" where
  "resultado_comparacao irr tma d =
     compare_alternatives (irr (A d)) (vpl_a tma d) (payback_a tma d)
                          (irr (B d)) (vpl_b tma d) (payback_b tma d)"

section \<open>Notions of the specification\<close>

text \<open>
  The discounted flow of period \<open>t\<close> and the cumulative discounted flow up to it, as the
  specification writes them: \<open>series[t] / (1+r)^t\<close> and its running sum.
\<close>

definition dcf :: "real \<Rightarrow> real list \<Rightarrow> nat \<Rightarrow> real" where
  "dcf r S t = S ! t / (1 + r) ^ t"

definition cum :: "real \<Rightarrow> real list \<Rightarrow> nat \<Rightarrow> real" where
  "cum r S t = (\<Sum>k\<le>t. dcf r S k)"

text \<open>
  Two tables have swapped winners on row \<open>m\<close> when the label \<open>A\<close> of one is the label
  \<open>B\<close> of the other.
\<close>

definition swapped_winners :: "nat \<Rightarrow> comparison \<Rightarrow> comparison \<Rightarrow> bool" where
  "swapped_winners m c c' =
     ((Alternativa_Escolhida c ! m = ''A'' \<longleftrightarrow> Alternativa_Escolhida c' ! m = ''B'') \<and>
      (Alternativa_Escolhida c ! m = ''B'' \<longleftrightarrow> Alternativa_Escolhida c' ! m = ''A''))"

text \<open>
  The net present value as the specification defines it, \<open>\<Sum> S[t] / (1+r)^t\<close> over the
  periods of the series, and a value being within a tolerance of a number.
\<close>

definition direct_summation :: "real \<Rightarrow> real list \<Rightarrow> real" where
  "direct_summation r S = (\<Sum>t<length S. S ! t / (1 + r) ^ t)"

definition close_to :: "real \<Rightarrow> pyfloat \<Rightarrow> real \<Rightarrow> bool" where
  "close_to tol v x = (case v of Fin y \<Rightarrow> \<bar>y - x\<bar> \<le> tol | _ \<Rightarrow> False)"

text \<open>
  Modelled from the spec: the root finder \<^verbatim>\<open>numpy_financial.irr\<close> is not in the repository.
  The specification defines the IRR of a series as "the discount rate r such that
  NPV(r, series) = 0", a discount rate being above -1. A series can have several such
  rates or none, so this is a relation.
\<close>

definition irr_of :: "real list \<Rightarrow> real \<Rightarrow> bool" where
  "irr_of S r = (- 1 < r \<and> direct_summation r S = 0)"

section \<open>The discounted payback\<close>

lemmas dpp_eval = discounted_payback_period_def payback_from_columns_def
  CumulativeDiscountedCashFlows_def DiscountedCashFlows_def cumsum_def pv_def upt_rec Let_def

lemmas cum_eval = cum_def dcf_def numeral_eq_Suc

lemma cumsum_from_length [simp]: "length (cumsum_from a xs) = length xs"
  by (induction xs arbitrary: a) (auto simp: Let_def)

lemma Max_index: "n \<noteq> 0 \<Longrightarrow> Max {0..<n} = n - (1 :: nat)"
  by (intro Max_eqI) auto

text \<open>
  The interpolation never divides by zero. The year after the last negative cumulative
  value has a cumulative value that is not negative; with a zero flow it would be the
  cumulative value of the year before. This rests on \<open>x + 0 = x\<close> only.
\<close>

lemma fl_add_zero: "v \<noteq> NaN \<Longrightarrow> fl_add v (Fin 0) = v"
  by (cases v) simp_all

lemma cumsum_from_zero_flow:
  "Suc t < length xs \<Longrightarrow> xs ! Suc t = Fin 0 \<Longrightarrow> cumsum_from a xs ! t \<noteq> NaN \<Longrightarrow>
   cumsum_from a xs ! Suc t = cumsum_from a xs ! t"
proof (induction xs arbitrary: a t)
  case Nil
  then show ?case by simp
next
  case (Cons x xs)
  show ?case
  proof (cases t)
    case 0
    with Cons.prems obtain ys where xs: "xs = Fin 0 # ys" by (cases xs) auto
    with Cons.prems 0 show ?thesis by (auto simp: fl_add_zero split: if_splits)
  next
    case (Suc u)
    with Cons.prems have "Suc u < length xs" "xs ! Suc u = Fin 0" by simp_all
    note ih = Cons.IH [OF this]
    from Cons.prems(3) Suc show ?thesis by (auto intro: ih split: if_splits)
  qed
qed

lemma interpolation_divisor_nonzero:
  assumes neg: "fl_lt (cumsum dcfs ! t) (Fin 0)"
    and last: "\<forall>u. t < u \<and> u < length dcfs \<longrightarrow> \<not> fl_lt (cumsum dcfs ! u) (Fin 0)"
    and nl: "Suc t < length dcfs"
  shows "dcfs ! (t + 1) \<noteq> Fin 0"
proof
  assume z: "dcfs ! (t + 1) = Fin 0"
  from neg have "cumsum dcfs ! t \<noteq> NaN" by auto
  with z nl have "cumsum dcfs ! Suc t = cumsum dcfs ! t"
    unfolding cumsum_def by (intro cumsum_from_zero_flow) simp_all
  with neg have "fl_lt (cumsum dcfs ! Suc t) (Fin 0)" by simp
  with last nl show False by simp
qed

text \<open>
  C4, as the code has it. Whatever the two columns computed at lines 74 and 77 are: when
  the cumulative column has no negative entry, \<^verbatim>\<open>discounted_payback_period\<close> returns
  infinity, and it returns infinity as well when the last entry of the cumulative column
  is negative, which is the investment that is never recovered. The two cases give the
  same value.
\<close>

theorem no_negative_entry_gives_infinity:
  "((\<forall>t<length cums. \<not> fl_lt (cums ! t) (Fin 0)) \<longrightarrow> payback_from_columns dcfs cums = PInf) \<and>
   (cums \<noteq> [] \<and> fl_lt (last cums) (Fin 0) \<longrightarrow> payback_from_columns dcfs cums = PInf)"
proof (intro conjI impI)
  assume "\<forall>t<length cums. \<not> fl_lt (cums ! t) (Fin 0)"
  then have "filter (\<lambda>year. fl_lt (cums ! year) (Fin 0)) [0..<length cums] = []"
    by (simp add: filter_empty_conv)
  then show "payback_from_columns dcfs cums = PInf"
    by (simp add: payback_from_columns_def)
next
  assume a: "cums \<noteq> [] \<and> fl_lt (last cums) (Fin 0)"
  let ?negs = "filter (\<lambda>year. fl_lt (cums ! year) (Fin 0)) [0..<length cums]"
  from a have n: "length cums \<noteq> 0" by simp
  from a have "fl_lt (cums ! (length cums - 1)) (Fin 0)" by (auto simp: last_conv_nth)
  with n have mem: "length cums - 1 \<in> set ?negs" by simp
  then have ne: "?negs \<noteq> []" by (metis empty_iff empty_set)
  have "Max (set ?negs) = length cums - 1"
    using mem by (intro Max_eqI) auto
  with ne n show "payback_from_columns dcfs cums = PInf"
    by (simp add: payback_from_columns_def Max_index Let_def)
qed

text \<open>
  The columns of \<open>[100, 100, 100]\<close> and of \<open>[-1000, 10, 10, 10]\<close> at 10%: the first has no
  negative cumulative value, the second ends on one.
\<close>

theorem no_negative_entry_gives_infinity_witness:
  "CumulativeDiscountedCashFlows (1 / 10) [100, 100, 100]
     = [Fin 100, Fin (2100 / 11), Fin (33100 / 121)] \<and>
   payback_from_columns (DiscountedCashFlows (1 / 10) [100, 100, 100])
     (CumulativeDiscountedCashFlows (1 / 10) [100, 100, 100]) = PInf \<and>
   CumulativeDiscountedCashFlows (1 / 10) [- 1000, 10, 10, 10] \<noteq> [] \<and>
   fl_lt (last (CumulativeDiscountedCashFlows (1 / 10) [- 1000, 10, 10, 10])) (Fin 0) \<and>
   payback_from_columns (DiscountedCashFlows (1 / 10) [- 1000, 10, 10, 10])
     (CumulativeDiscountedCashFlows (1 / 10) [- 1000, 10, 10, 10]) = PInf"
proof -
  have c: "CumulativeDiscountedCashFlows (1 / 10) [100, 100, 100]
             = [Fin 100, Fin (2100 / 11), Fin (33100 / 121)]"
    by (simp add: dpp_eval)
  have a: "\<forall>t<length (CumulativeDiscountedCashFlows (1 / 10) [100, 100, 100]).
             \<not> fl_lt (CumulativeDiscountedCashFlows (1 / 10) [100, 100, 100] ! t) (Fin 0)"
    unfolding c by (simp add: less_Suc_eq numeral_eq_Suc)
  have b: "CumulativeDiscountedCashFlows (1 / 10) [- 1000, 10, 10, 10] \<noteq> [] \<and>
           fl_lt (last (CumulativeDiscountedCashFlows (1 / 10) [- 1000, 10, 10, 10])) (Fin 0)"
    by (simp add: dpp_eval)
  from no_negative_entry_gives_infinity
         [of "CumulativeDiscountedCashFlows (1 / 10) [100, 100, 100]"
             "DiscountedCashFlows (1 / 10) [100, 100, 100]"] a
  have 1: "payback_from_columns (DiscountedCashFlows (1 / 10) [100, 100, 100])
             (CumulativeDiscountedCashFlows (1 / 10) [100, 100, 100]) = PInf"
    by blast
  from no_negative_entry_gives_infinity
         [of "CumulativeDiscountedCashFlows (1 / 10) [- 1000, 10, 10, 10]"
             "DiscountedCashFlows (1 / 10) [- 1000, 10, 10, 10]"] b
  have 2: "payback_from_columns (DiscountedCashFlows (1 / 10) [- 1000, 10, 10, 10])
             (CumulativeDiscountedCashFlows (1 / 10) [- 1000, 10, 10, 10]) = PInf"
    by blast
  from c 1 b 2 show ?thesis by blast
qed

text \<open>
  The series \<open>[100, 100, 100]\<close> never has a negative cumulative value, \<open>[-1000, 10, 10, 10]\<close>
  is never recovered, and the function returns the same value for both.
\<close>

theorem no_payback_needed_counterexample:
  "0 \<le> cum (1 / 10) [100, 100, 100] 0 \<and> 0 \<le> cum (1 / 10) [100, 100, 100] 1 \<and>
   0 \<le> cum (1 / 10) [100, 100, 100] 2 \<and> cum (1 / 10) [- 1000, 10, 10, 10] 3 < 0 \<and>
   discounted_payback_period (1 / 10) [100, 100, 100] =
   discounted_payback_period (1 / 10) [- 1000, 10, 10, 10]"
  by (simp add: cum_eval dpp_eval)

section \<open>The comparison table\<close>

lemma fl_lt_asym: "fl_lt a b \<Longrightarrow> \<not> fl_lt b a"
  by (cases a; cases b) auto

lemma fl_lt_irrefl: "\<not> fl_lt a a"
  by (cases a) auto

lemma npv_two_flows:
  "npv r [a, b] = fl_add (fl_add (Fin 0) (fl_div (Fin a) (Fin 1))) (fl_div (Fin b) (Fin (1 + r)))"
  by (simp add: npv_def upt_rec)

text \<open>
  C3, as the code has it. When at least one of the two IRR values is NaN, the comparison
  \<^verbatim>\<open>tir_a > tir_b\<close> is false and the table names \<open>B\<close> on the IRR row.
\<close>

theorem irr_nan_labels_B:
  "ta = NaN \<or> tb = NaN \<Longrightarrow>
   Alternativa_Escolhida (compare_alternatives ta va pa tb vb pb) ! TIR = ''B''"
  by (cases ta; cases tb) (auto simp: compare_alternatives_def TIR_def fl_gt_def)

theorem irr_nan_labels_B_witness:
  "(NaN = NaN \<or> Fin (1 / 10) = NaN) \<and>
   Alternativa_Escolhida
     (compare_alternatives NaN (Fin 300) PInf (Fin (1 / 10)) (Fin 100) (Fin 2)) ! TIR = ''B''"
  using irr_nan_labels_B [of NaN "Fin (1 / 10)" "Fin 300" PInf "Fin 100" "Fin 2"] by simp

text \<open>An undefined IRR for alternative A: the IRR row selects \<open>B\<close>, it does not say "undefined".\<close>

theorem irr_undefined_counterexample:
  "Alternativa_Escolhida
     (compare_alternatives NaN (Fin 300) PInf (Fin (1 / 10)) (Fin 100) (Fin 2)) ! TIR = ''B'' \<and>
   Alternativa_Escolhida
     (compare_alternatives NaN (Fin 300) PInf (Fin (1 / 10)) (Fin 100) (Fin 2)) ! TIR
     \<noteq> ''undefined''"
  by (simp add: compare_alternatives_def TIR_def fl_gt_def)

text \<open>
  C6, as the code has it. On every row where one of the two values is strictly less than
  the other, comparing (A, B) and comparing (B, A) give swapped labels; on a row where the
  two values are equal or one of them is NaN, both orders give the label \<open>B\<close>.
\<close>

theorem compare_swap:
  "(fl_lt ta tb \<or> fl_lt tb ta \<longrightarrow>
      swapped_winners TIR (compare_alternatives ta va pa tb vb pb)
                          (compare_alternatives tb vb pb ta va pa)) \<and>
   (ta = tb \<or> ta = NaN \<or> tb = NaN \<longrightarrow>
      Alternativa_Escolhida (compare_alternatives ta va pa tb vb pb) ! TIR = ''B'' \<and>
      Alternativa_Escolhida (compare_alternatives tb vb pb ta va pa) ! TIR = ''B'') \<and>
   (fl_lt va vb \<or> fl_lt vb va \<longrightarrow>
      swapped_winners VPL (compare_alternatives ta va pa tb vb pb)
                          (compare_alternatives tb vb pb ta va pa)) \<and>
   (va = vb \<or> va = NaN \<or> vb = NaN \<longrightarrow>
      Alternativa_Escolhida (compare_alternatives ta va pa tb vb pb) ! VPL = ''B'' \<and>
      Alternativa_Escolhida (compare_alternatives tb vb pb ta va pa) ! VPL = ''B'') \<and>
   (fl_lt pa pb \<or> fl_lt pb pa \<longrightarrow>
      swapped_winners Payback (compare_alternatives ta va pa tb vb pb)
                              (compare_alternatives tb vb pb ta va pa)) \<and>
   (pa = pb \<or> pa = NaN \<or> pb = NaN \<longrightarrow>
      Alternativa_Escolhida (compare_alternatives ta va pa tb vb pb) ! Payback = ''B'' \<and>
      Alternativa_Escolhida (compare_alternatives tb vb pb ta va pa) ! Payback = ''B'')"
proof -
  have ordered: "swapped_winners m (compare_alternatives ta va pa tb vb pb)
                                   (compare_alternatives tb vb pb ta va pa)"
    if "m = TIR \<and> (fl_lt ta tb \<or> fl_lt tb ta) \<or> m = VPL \<and> (fl_lt va vb \<or> fl_lt vb va)
        \<or> m = Payback \<and> (fl_lt pa pb \<or> fl_lt pb pa)" for m
    using that
    by (auto simp: swapped_winners_def compare_alternatives_def TIR_def VPL_def Payback_def
          fl_gt_def dest: fl_lt_asym)
  have tie: "\<not> fl_lt a b \<and> \<not> fl_lt b a" if "a = b \<or> a = NaN \<or> b = NaN" for a b
    using that by (cases a; cases b) (auto simp: fl_lt_irrefl)
  have t: "Alternativa_Escolhida (compare_alternatives ta va pa tb vb pb) ! TIR = ''B'' \<and>
           Alternativa_Escolhida (compare_alternatives tb vb pb ta va pa) ! TIR = ''B''"
    if "ta = tb \<or> ta = NaN \<or> tb = NaN"
    using tie [OF that] by (simp add: compare_alternatives_def TIR_def fl_gt_def)
  have v: "Alternativa_Escolhida (compare_alternatives ta va pa tb vb pb) ! VPL = ''B'' \<and>
           Alternativa_Escolhida (compare_alternatives tb vb pb ta va pa) ! VPL = ''B''"
    if "va = vb \<or> va = NaN \<or> vb = NaN"
    using tie [OF that] by (simp add: compare_alternatives_def VPL_def fl_gt_def)
  have p: "Alternativa_Escolhida (compare_alternatives ta va pa tb vb pb) ! Payback = ''B'' \<and>
           Alternativa_Escolhida (compare_alternatives tb vb pb ta va pa) ! Payback = ''B''"
    if "pa = pb \<or> pa = NaN \<or> pb = NaN"
    using tie [OF that] by (simp add: compare_alternatives_def Payback_def)
  from ordered [of TIR] ordered [of VPL] ordered [of Payback] t v p show ?thesis
    by (intro conjI impI) blast+
qed

text \<open>
  Strictly ordered values on the three rows; then equal values on the three rows; then a
  NaN on each row.
\<close>

theorem compare_swap_witness:
  "(fl_lt (Fin (3 / 10)) (Fin (2 / 10)) \<or> fl_lt (Fin (2 / 10)) (Fin (3 / 10))) \<and>
   (fl_lt (Fin 100) (Fin 250) \<or> fl_lt (Fin 250) (Fin 100)) \<and>
   (fl_lt (Fin 2) PInf \<or> fl_lt PInf (Fin 2)) \<and>
   swapped_winners TIR
     (compare_alternatives (Fin (3 / 10)) (Fin 100) (Fin 2) (Fin (2 / 10)) (Fin 250) PInf)
     (compare_alternatives (Fin (2 / 10)) (Fin 250) PInf (Fin (3 / 10)) (Fin 100) (Fin 2)) \<and>
   swapped_winners VPL
     (compare_alternatives (Fin (3 / 10)) (Fin 100) (Fin 2) (Fin (2 / 10)) (Fin 250) PInf)
     (compare_alternatives (Fin (2 / 10)) (Fin 250) PInf (Fin (3 / 10)) (Fin 100) (Fin 2)) \<and>
   swapped_winners Payback
     (compare_alternatives (Fin (3 / 10)) (Fin 100) (Fin 2) (Fin (2 / 10)) (Fin 250) PInf)
     (compare_alternatives (Fin (2 / 10)) (Fin 250) PInf (Fin (3 / 10)) (Fin 100) (Fin 2)) \<and>
   Alternativa_Escolhida
     (compare_alternatives (Fin (1 / 5)) (Fin 100) PInf (Fin (1 / 5)) (Fin 100) PInf) ! TIR
     = ''B'' \<and>
   Alternativa_Escolhida
     (compare_alternatives (Fin (1 / 5)) (Fin 100) PInf (Fin (1 / 5)) (Fin 100) PInf) ! VPL
     = ''B'' \<and>
   Alternativa_Escolhida
     (compare_alternatives (Fin (1 / 5)) (Fin 100) PInf (Fin (1 / 5)) (Fin 100) PInf) ! Payback
     = ''B'' \<and>
   Alternativa_Escolhida
     (compare_alternatives NaN (Fin 100) NaN (Fin (1 / 5)) NaN (Fin 2)) ! TIR = ''B'' \<and>
   Alternativa_Escolhida
     (compare_alternatives (Fin (1 / 5)) NaN (Fin 2) NaN (Fin 100) NaN) ! TIR = ''B'' \<and>
   Alternativa_Escolhida
     (compare_alternatives NaN (Fin 100) NaN (Fin (1 / 5)) NaN (Fin 2)) ! VPL = ''B'' \<and>
   Alternativa_Escolhida
     (compare_alternatives (Fin (1 / 5)) NaN (Fin 2) NaN (Fin 100) NaN) ! VPL = ''B'' \<and>
   Alternativa_Escolhida
     (compare_alternatives NaN (Fin 100) NaN (Fin (1 / 5)) NaN (Fin 2)) ! Payback = ''B'' \<and>
   Alternativa_Escolhida
     (compare_alternatives (Fin (1 / 5)) NaN (Fin 2) NaN (Fin 100) NaN) ! Payback = ''B''"
  using compare_swap [of "Fin (3 / 10)" "Fin (2 / 10)" "Fin 100" "Fin 2" "Fin 250" PInf]
        compare_swap [of "Fin (1 / 5)" "Fin (1 / 5)" "Fin 100" PInf "Fin 100" PInf]
        compare_swap [of NaN "Fin (1 / 5)" "Fin 100" NaN NaN "Fin 2"]
  by simp

text \<open>Two alternatives with the same NPV: both orders name \<open>B\<close> on the NPV row.\<close>

theorem compare_swap_counterexample:
  "\<not> swapped_winners VPL
       (compare_alternatives (Fin (3 / 10)) (Fin 100) (Fin 2) (Fin (2 / 10)) (Fin 100) (Fin 3))
       (compare_alternatives (Fin (2 / 10)) (Fin 100) (Fin 3) (Fin (3 / 10)) (Fin 100) (Fin 2))"
  by (simp add: swapped_winners_def compare_alternatives_def VPL_def fl_gt_def)

text \<open>
  C7, as the code has it. The payback row names the alternative with the strictly smaller
  payback; an infinite payback loses to a finite one; two infinite paybacks give \<open>B\<close>.
\<close>

theorem payback_winner:
  "(fl_lt pa pb \<longrightarrow>
      Alternativa_Escolhida (compare_alternatives ta va pa tb vb pb) ! Payback = ''A'') \<and>
   (fl_lt pb pa \<longrightarrow>
      Alternativa_Escolhida (compare_alternatives ta va pa tb vb pb) ! Payback = ''B'') \<and>
   (pa = PInf \<and> (\<exists>y. pb = Fin y) \<longrightarrow>
      Alternativa_Escolhida (compare_alternatives ta va pa tb vb pb) ! Payback = ''B'') \<and>
   ((\<exists>x. pa = Fin x) \<and> pb = PInf \<longrightarrow>
      Alternativa_Escolhida (compare_alternatives ta va pa tb vb pb) ! Payback = ''A'') \<and>
   (pa = PInf \<and> pb = PInf \<longrightarrow>
      Alternativa_Escolhida (compare_alternatives ta va pa tb vb pb) ! Payback = ''B'')"
  by (auto simp: compare_alternatives_def Payback_def dest: fl_lt_asym)

theorem payback_winner_witness:
  "fl_lt (Fin 2) (Fin 3) \<and>
   Alternativa_Escolhida
     (compare_alternatives NaN (Fin 1) (Fin 2) NaN (Fin 1) (Fin 3)) ! Payback = ''A'' \<and>
   Alternativa_Escolhida
     (compare_alternatives NaN (Fin 1) (Fin 3) NaN (Fin 1) (Fin 2)) ! Payback = ''B'' \<and>
   (\<exists>y. Fin 3 = Fin y) \<and>
   Alternativa_Escolhida
     (compare_alternatives NaN (Fin 1) PInf NaN (Fin 1) (Fin 3)) ! Payback = ''B'' \<and>
   Alternativa_Escolhida
     (compare_alternatives NaN (Fin 1) (Fin 3) NaN (Fin 1) PInf) ! Payback = ''A'' \<and>
   Alternativa_Escolhida
     (compare_alternatives NaN (Fin 1) PInf NaN (Fin 1) PInf) ! Payback = ''B''"
  using payback_winner [of "Fin 2" "Fin 3" NaN "Fin 1" NaN "Fin 1"]
        payback_winner [of "Fin 3" "Fin 2" NaN "Fin 1" NaN "Fin 1"]
        payback_winner [of PInf "Fin 3" NaN "Fin 1" NaN "Fin 1"]
        payback_winner [of "Fin 3" PInf NaN "Fin 1" NaN "Fin 1"]
        payback_winner [of PInf PInf NaN "Fin 1" NaN "Fin 1"]
  by simp

text \<open>Two alternatives that are never recovered: the payback row selects \<open>B\<close>.\<close>

theorem payback_both_infinite_counterexample:
  "Alternativa_Escolhida
     (compare_alternatives (Fin (1 / 10)) (Fin (- 5)) PInf (Fin (1 / 20)) (Fin (- 7)) PInf)
     ! Payback = ''B'' \<and>
   Alternativa_Escolhida
     (compare_alternatives (Fin (1 / 10)) (Fin (- 5)) PInf (Fin (1 / 20)) (Fin (- 7)) PInf)
     ! Payback \<noteq> ''undefined''"
  by (simp add: compare_alternatives_def Payback_def)

text \<open>
  C8, as the code has it. The NPV and the payback that the comparison receives are the
  values rounded to 2 decimals, and the winner is decided on them: when the two rounded
  values are equal the row names \<open>B\<close>, whatever the unrounded values are.
\<close>

theorem comparator_receives_rounded:
  "Alternativa_A (resultado_comparacao irr tma d) ! VPL = round2 (npv tma (A d)) \<and>
   Alternativa_B (resultado_comparacao irr tma d) ! VPL = round2 (npv tma (B d)) \<and>
   Alternativa_A (resultado_comparacao irr tma d) ! Payback
     = round2 (discounted_payback_period tma (A d)) \<and>
   Alternativa_B (resultado_comparacao irr tma d) ! Payback
     = round2 (discounted_payback_period tma (B d)) \<and>
   (round2 (npv tma (A d)) = round2 (npv tma (B d)) \<longrightarrow>
      Alternativa_Escolhida (resultado_comparacao irr tma d) ! VPL = ''B'') \<and>
   (round2 (discounted_payback_period tma (A d)) = round2 (discounted_payback_period tma (B d))
      \<longrightarrow> Alternativa_Escolhida (resultado_comparacao irr tma d) ! Payback = ''B'') \<and>
   Alternativa_A (resultado_comparacao irr tma d) ! TIR = irr (A d) \<and>
   Alternativa_B (resultado_comparacao irr tma d) ! TIR = irr (B d)"
  by (simp add: resultado_comparacao_def compare_alternatives_def TIR_def VPL_def Payback_def
        vpl_a_def vpl_b_def payback_a_def payback_b_def fl_gt_def fl_lt_irrefl)

theorem comparator_receives_rounded_witness:
  "round2 (npv (3 / 2) [- 100, 500.01]) = round2 (npv (3 / 2) [- 100, 500]) \<and>
   round2 (discounted_payback_period (3 / 2) [- 100, 500.01])
     = round2 (discounted_payback_period (3 / 2) [- 100, 500]) \<and>
   Alternativa_A (resultado_comparacao (\<lambda>S. Fin (- (S ! 1) / (S ! 0) - 1)) (3 / 2)
        \<lparr>A = [- 100, 500.01], B = [- 100, 500]\<rparr>) ! VPL = Fin 100 \<and>
   Alternativa_Escolhida (resultado_comparacao (\<lambda>S. Fin (- (S ! 1) / (S ! 0) - 1)) (3 / 2)
        \<lparr>A = [- 100, 500.01], B = [- 100, 500]\<rparr>) ! VPL = ''B'' \<and>
   Alternativa_Escolhida (resultado_comparacao (\<lambda>S. Fin (- (S ! 1) / (S ! 0) - 1)) (3 / 2)
        \<lparr>A = [- 100, 500.01], B = [- 100, 500]\<rparr>) ! Payback = ''B''"
  using comparator_receives_rounded
    [of "\<lambda>S. Fin (- (S ! 1) / (S ! 0) - 1)" "3 / 2" "\<lparr>A = [- 100, 500.01], B = [- 100, 500]\<rparr>"]
  by (simp add: npv_two_flows dpp_eval rint_def Let_def)

text \<open>
  Two alternatives whose NPVs at a rate of 150% are 100.004 and 100: A's is the greater by
  less than 0.005, and the NPV row names \<open>B\<close>. The IRR given is the exact one of a series
  of two flows.
\<close>

theorem rounding_before_comparison_counterexample:
  "npv (3 / 2) [- 100, 500.01] = Fin 100.004 \<and> npv (3 / 2) [- 100, 500] = Fin 100 \<and>
   fl_gt (npv (3 / 2) [- 100, 500.01]) (npv (3 / 2) [- 100, 500]) \<and>
   Alternativa_Escolhida
     (resultado_comparacao (\<lambda>S. Fin (- (S ! 1) / (S ! 0) - 1)) (3 / 2)
        \<lparr>A = [- 100, 500.01], B = [- 100, 500]\<rparr>) ! VPL = ''B''"
  by (simp add: resultado_comparacao_def compare_alternatives_def VPL_def
        vpl_a_def vpl_b_def fl_gt_def npv_two_flows rint_def Let_def)

section \<open>Scenario 1\<close>

lemma npv_five_flows:
  "npv r [a, b, c, d, e] =
     fl_add (fl_add (fl_add (fl_add (fl_add (Fin 0) (fl_div (Fin a) (Fin 1)))
       (fl_div (Fin b) (Fin (1 + r)))) (fl_div (Fin c) (Fin ((1 + r) * (1 + r)))))
       (fl_div (Fin d) (Fin ((1 + r) * ((1 + r) * (1 + r))))))
       (fl_div (Fin e) (Fin ((1 + r) * ((1 + r) * ((1 + r) * (1 + r))))))"
  by (simp add: npv_def upt_rec numeral_eq_Suc)

lemma direct_summation_five:
  "direct_summation r [a, b, c, d, e] =
     a + b / (1 + r) + c / (1 + r) ^ 2 + d / (1 + r) ^ 3 + e / (1 + r) ^ 4"
  by (simp add: direct_summation_def numeral_eq_Suc lessThan_Suc)

lemma direct_summation_five_eval:
  "direct_summation r [a, b, c, d, e] =
     a + b / (1 + r) + c / ((1 + r) * (1 + r)) + d / ((1 + r) * ((1 + r) * (1 + r)))
       + e / ((1 + r) * ((1 + r) * ((1 + r) * (1 + r))))"
  by (simp add: direct_summation_def numeral_eq_Suc lessThan_Suc)

lemma discount_antimono:
  assumes "- 1 < (r :: real)" "r \<le> s" "0 \<le> c"
  shows "c / (1 + s) ^ k \<le> c / (1 + r) ^ k"
proof -
  have "(1 + r) ^ k \<le> (1 + s) ^ k" by (intro power_mono) (use assms in simp_all)
  moreover have "0 < (1 + r) ^ k" using assms by simp
  ultimately show ?thesis by (intro divide_left_mono) (use assms(3) in simp_all)
qed

lemma scenario_1_npv_antimono:
  assumes "- 1 < r" "r \<le> s"
  shows "direct_summation s [- 200, 100, 100, 100, 100]
           \<le> direct_summation r [- 200, 100, 100, 100, 100]"
proof -
  have "100 / (1 + s) ^ k \<le> 100 / (1 + r) ^ k" for k
    by (intro discount_antimono) (use assms in simp_all)
  from this [of 1] this [of 2] this [of 3] this [of 4]
  show ?thesis by (simp add: direct_summation_five)
qed

lemma scenario_1_npv_signs:
  "0 < direct_summation (3485 / 10000) [- 200, 100, 100, 100, 100]"
  "direct_summation (3495 / 10000) [- 200, 100, 100, 100, 100] < 0"
  by (simp_all add: direct_summation_five_eval)

lemma scenario_1_irr_exists:
  "\<exists>r. irr_of [- 200, 100, 100, 100, 100] r"
proof -
  let ?f = "\<lambda>r. direct_summation r [- 200, 100, 100, 100, 100]"
  have "\<exists>x. 3485 / 10000 \<le> x \<and> x \<le> 3495 / 10000 \<and> ?f x = 0"
  proof (rule IVT2)
    show "?f (3495 / 10000) \<le> 0" "0 \<le> ?f (3485 / 10000)"
      using scenario_1_npv_signs by simp_all
    show "(3485 / 10000 :: real) \<le> 3495 / 10000" by simp
    show "\<forall>x. 3485 / 10000 \<le> x \<and> x \<le> 3495 / 10000 \<longrightarrow> isCont ?f x"
      by (auto simp: direct_summation_five intro!: continuous_intros)
  qed
  then obtain x where "3485 / 10000 \<le> x" "?f x = 0" by blast
  then have "irr_of [- 200, 100, 100, 100, 100] x" by (simp add: irr_of_def)
  then show ?thesis ..
qed

lemma scenario_1_irr_bracket:
  assumes "irr_of [- 200, 100, 100, 100, 100] r"
  shows "3485 / 10000 < r \<and> r < 3495 / 10000"
proof -
  from assms have r: "- 1 < r" and z: "direct_summation r [- 200, 100, 100, 100, 100] = 0"
    by (simp_all add: irr_of_def)
  have "3485 / 10000 < r"
  proof (rule ccontr)
    assume "\<not> 3485 / 10000 < r"
    then have "r \<le> 3485 / 10000" by simp
    from scenario_1_npv_antimono [OF r this] scenario_1_npv_signs(1) z show False by simp
  qed
  moreover have "r < 3495 / 10000"
  proof (rule ccontr)
    assume "\<not> r < 3495 / 10000"
    then have le: "3495 / 10000 \<le> r" by simp
    have "- 1 < (3495 / 10000 :: real)" by simp
    from scenario_1_npv_antimono [OF this le] scenario_1_npv_signs(2) z show False by simp
  qed
  ultimately show ?thesis ..
qed

text \<open>
  C9, as the code has it. For \<open>[-200, 100, 100, 100, 100]\<close> at 10%, the data the script
  starts with, the NPV is 116.99 and the discounted payback is 2.352, kept as 2.35. The
  series has an IRR, as the specification defines it, and every IRR of the series lies
  between 34.85% and 34.95%.
\<close>

theorem scenario_1:
  "vpl_a (1 / 10) \<lparr>A = [- 200, 100, 100, 100, 100], B = [- 200, 50, 50, 50, 1000]\<rparr> = Fin 116.99 \<and>
   (\<exists>r. irr_of [- 200, 100, 100, 100, 100] r) \<and>
   (\<forall>r. irr_of [- 200, 100, 100, 100, 100] r \<longrightarrow> 3485 / 10000 < r \<and> r < 3495 / 10000) \<and>
   discounted_payback_period (1 / 10) [- 200, 100, 100, 100, 100] = Fin 2.352 \<and>
   payback_a (1 / 10) \<lparr>A = [- 200, 100, 100, 100, 100], B = [- 200, 50, 50, 50, 1000]\<rparr> = Fin 2.35"
proof -
  have "vpl_a (1 / 10) \<lparr>A = [- 200, 100, 100, 100, 100], B = [- 200, 50, 50, 50, 1000]\<rparr> = Fin 116.99"
    by (simp add: vpl_a_def npv_five_flows rint_def Let_def)
  moreover have "discounted_payback_period (1 / 10) [- 200, 100, 100, 100, 100] = Fin 2.352"
    by (simp add: dpp_eval)
  moreover have "payback_a (1 / 10) \<lparr>A = [- 200, 100, 100, 100, 100], B = [- 200, 50, 50, 50, 1000]\<rparr> = Fin 2.35"
    by (simp add: payback_a_def dpp_eval rint_def)
  ultimately show ?thesis
    using scenario_1_irr_exists scenario_1_irr_bracket by blast
qed

theorem scenario_1_witness:
  "\<exists>r. irr_of [- 200, 100, 100, 100, 100] r \<and> 3485 / 10000 < r \<and> r < 3495 / 10000"
  using scenario_1 by blast

text \<open>The payback of scenario 1 is 2.35, which is not 2.74 to any tolerance under 0.39.\<close>

theorem scenario_1_payback_counterexample:
  "payback_a (1 / 10) \<lparr>A = [- 200, 100, 100, 100, 100], B = [- 200, 50, 50, 50, 1000]\<rparr> = Fin 2.35 \<and>
   \<not> close_to (5 / 100) (payback_a (1 / 10) \<lparr>A = [- 200, 100, 100, 100, 100], B = [- 200, 50, 50, 50, 1000]\<rparr>) 2.74 \<and>
   \<not> close_to (5 / 100) (discounted_payback_period (1 / 10) [- 200, 100, 100, 100, 100]) 2.74"
  by (simp add: payback_a_def dpp_eval rint_def Let_def close_to_def)

end
